theory Spec2Isabelle
  imports Main
begin

section \<open>Solidity 0.8 arithmetic and failure\<close>

text \<open>
  The contracts are written for \<^verbatim>\<open>pragma solidity ^0.8.19\<close>: every \<^verbatim>\<open>uint256\<close>
  operation is checked. An overflow or underflow aborts the transaction with
  \<^verbatim>\<open>Panic(0x11)\<close>, a division by zero with \<^verbatim>\<open>Panic(0x12)\<close>, a failed \<^verbatim>\<open>require\<close> with
  \<^verbatim>\<open>Error(string)\<close>. A transaction that aborts leaves no state change, so an operation
  is a function from the state to either an error or the new state.
  A \<^verbatim>\<open>uint256\<close> is a natural number below \<open>2 ^ 256\<close>; an \<^verbatim>\<open>address\<close> is a natural
  number and \<^verbatim>\<open>address(0)\<close> is \<open>0\<close>.
\<close>

type_synonym address = nat

datatype error = Revert string | Panic nat

definition MAX_UINT256 :: nat where
  "MAX_UINT256 = 2 ^ 256 - 1"

definition PANIC_OVERFLOW :: nat where
  "PANIC_OVERFLOW = 17"

definition PANIC_DIV_ZERO :: nat where
  "PANIC_DIV_ZERO = 18"

definition bnd :: "error + 'a \<Rightarrow> ('a \<Rightarrow> error + 'b) \<Rightarrow> error + 'b" where
  "bnd m f = (case m of Inl e \<Rightarrow> Inl e | Inr v \<Rightarrow> f v)"

definition cadd :: "nat \<Rightarrow> nat \<Rightarrow> error + nat" where
  "cadd a b = (if a + b \<le> MAX_UINT256 then Inr (a + b) else Inl (Panic PANIC_OVERFLOW))"

definition csub :: "nat \<Rightarrow> nat \<Rightarrow> error + nat" where
  "csub a b = (if b \<le> a then Inr (a - b) else Inl (Panic PANIC_OVERFLOW))"

definition cmul :: "nat \<Rightarrow> nat \<Rightarrow> error + nat" where
  "cmul a b = (if a * b \<le> MAX_UINT256 then Inr (a * b) else Inl (Panic PANIC_OVERFLOW))"

definition cdiv :: "nat \<Rightarrow> nat \<Rightarrow> error + nat" where
  "cdiv a b = (if b = 0 then Inl (Panic PANIC_DIV_ZERO) else Inr (a div b))"

definition cpow :: "nat \<Rightarrow> nat \<Rightarrow> error + nat" where
  "cpow a b = (if a ^ b \<le> MAX_UINT256 then Inr (a ^ b) else Inl (Panic PANIC_OVERFLOW))"

definition failed :: "error + 'a \<Rightarrow> bool" where
  "failed r = (case r of Inl e \<Rightarrow> True | Inr v \<Rightarrow> False)"

section \<open>USBStablecoin (src/script.py): the supply controller\<close>

text \<open>
  The state of the token that \<^verbatim>\<open>mint\<close> reads and writes. \<^verbatim>\<open>totalSupply\<close> and
  \<^verbatim>\<open>balanceOf\<close> are the ERC20 base contract's; \<^verbatim>\<open>hasMinterRole\<close> is the access-control
  base contract's membership of \<^verbatim>\<open>MINTER_ROLE\<close>.
\<close>

record usb =
  totalSupply :: nat
  balanceOf :: "address \<Rightarrow> nat"
  maxSupply :: nat
  lastMintBlock :: nat
  mintingRateLimit :: nat
  currentBlockMinted :: nat
  usbPaused :: bool
  hasMinterRole :: "address \<Rightarrow> bool"

definition CIRCUIT_BREAKER_THRESHOLD :: nat where
  "CIRCUIT_BREAKER_THRESHOLD = 1000"

text \<open>
  The rate-limiting block of \<^verbatim>\<open>mint\<close> (lines 107 to 110): a new block number restarts
  the counter.
\<close>

definition rollBlock :: "nat \<Rightarrow> usb \<Rightarrow> usb" where
  "rollBlock blockNumber s =
     (if blockNumber \<noteq> lastMintBlock s
      then s\<lparr>lastMintBlock := blockNumber, currentBlockMinted := 0\<rparr>
      else s)"

text \<open>
  The ERC20 base contract's \<^verbatim>\<open>_mint\<close>: the supply grows by a checked addition and the
  receiver's balance with it.
\<close>

definition erc20_mint :: "usb \<Rightarrow> address \<Rightarrow> nat \<Rightarrow> error + usb" where
  "erc20_mint s to amt =
     bnd (cadd (totalSupply s) amt) (\<lambda>ts.
       Inr (s\<lparr>totalSupply := ts, balanceOf := (balanceOf s)(to := balanceOf s to + amt)\<rparr>))"

text \<open>
  \<^verbatim>\<open>mint(to, amount)\<close>, called by \<open>sender\<close> in block \<open>blockNumber\<close>. The modifiers run
  first, in the order written, then the body line by line.
\<close>

definition mint :: "address \<Rightarrow> nat \<Rightarrow> usb \<Rightarrow> address \<Rightarrow> nat \<Rightarrow> error + usb" where
  "mint sender blockNumber s to amt =
     (if \<not> hasMinterRole s sender then Inl (Revert ''AccessControl: account is missing role'')
      else if usbPaused s then Inl (Revert ''Pausable: paused'')
      else if to = 0 then Inl (Revert ''USB: mint to zero address'')
      else if \<not> amt > 0 then Inl (Revert ''USB: amount must be positive'')
      else bnd (cadd (totalSupply s) amt) (\<lambda>newSupply.
        if \<not> newSupply \<le> maxSupply s then Inl (Revert ''USB: exceeds max supply'')
        else let s1 = rollBlock blockNumber s in
          bnd (cadd (currentBlockMinted s1) amt) (\<lambda>minted.
            if \<not> minted \<le> mintingRateLimit s1 then Inl (Revert ''USB: exceeds minting rate limit'')
            else bnd (cmul amt 10000) (\<lambda>scaled.
              bnd (cdiv scaled (totalSupply s1)) (\<lambda>supplyIncreasePercentage.
                if supplyIncreasePercentage > CIRCUIT_BREAKER_THRESHOLD
                then Inl (Revert ''USB: circuit breaker triggered'')
                else erc20_mint (s1\<lparr>currentBlockMinted := minted\<rparr>) to amt)))))"

text \<open>
  A sequence of calls \<^verbatim>\<open>mint(to, amount)\<close>, each with its caller and block number. A
  call that aborts leaves the state as it was. \<^verbatim>\<open>mint\<close> is the only function of the
  contract that reaches \<^verbatim>\<open>_mint\<close>, so these are the only calls that can raise the
  supply.
\<close>

fun mints :: "usb \<Rightarrow> (address \<times> nat \<times> address \<times> nat) list \<Rightarrow> usb" where
  "mints s [] = s"
| "mints s ((sender, blockNumber, to, amt) # rest) =
     mints (case mint sender blockNumber s to amt of Inl e \<Rightarrow> s | Inr s' \<Rightarrow> s') rest"

section \<open>The environment of a transaction\<close>

text \<open>
  What a call reads from outside the contract: the caller, the block's timestamp, and the
  answers of the external contracts it calls. A price feed answers \<^verbatim>\<open>latestRoundData()\<close>
  and \<^verbatim>\<open>decimals()\<close>; \<open>None\<close> is a feed whose call reverts. The other external calls
  (token transfers, the yield strategy, the stable token, the treasury) either revert or
  return; the strategy's calls return a \<^verbatim>\<open>uint256\<close> that may depend on their
  arguments.
\<close>

record round_data =
  answer :: int
  updatedAt :: nat
  feed_decimals :: nat

record tx_env =
  msg_sender :: address
  block_timestamp :: nat
  latestRoundData :: "address \<Rightarrow> round_data option"
  erc20_ok :: bool
  eth_transfer_ok :: bool
  strategy_deposit :: "address \<Rightarrow> nat \<Rightarrow> nat option"
  strategy_withdraw :: "nat \<Rightarrow> address \<Rightarrow> nat option"
  treasury_deposit_ok :: bool
  usb_mint_ok :: bool
  usb_burnFrom_ok :: bool
  usb_totalSupply :: nat

section \<open>StabolutEngine (src/script_2.py)\<close>

record CollateralInfo =
  isSupported :: bool
  minDepositAmount :: nat
  maxDepositAmount :: nat
  liquidationThreshold :: nat
  stabilityFee :: nat

record UserDeposit =
  totalDeposited :: nat
  usbMinted :: nat
  lastUpdateTimestamp :: nat
  collateralTokens :: "address list"
  collateralAmounts :: "address \<Rightarrow> nat"

record engine =
  supportedTokens :: "address \<Rightarrow> CollateralInfo"
  userDeposits :: "address \<Rightarrow> UserDeposit"
  priceFeeds :: "address \<Rightarrow> address"
  emergencyThreshold :: nat
  totalValueLocked :: nat
  totalYieldGenerated :: nat
  treasuryYieldPercentage :: nat
  paused :: bool

definition MIN_COLLATERAL_RATIO :: nat where
  "MIN_COLLATERAL_RATIO = 15000"

text \<open>
  The checks shared by every price lookup (lines 310 to 315, 330 to 335 and, in the
  treasury, 433 to 438): the feed must exist, its price must be positive and its age, a
  checked subtraction, at most 3600 seconds. The first argument is the contract's prefix
  of the error messages.
\<close>

definition freshQuote :: "string \<Rightarrow> tx_env \<Rightarrow> address \<Rightarrow> error + round_data" where
  "freshQuote who env priceFeed =
     (if priceFeed = 0 then Inl (Revert (who @ '': no price feed''))
      else case latestRoundData env priceFeed of
        None \<Rightarrow> Inl (Revert ''price feed call reverted'')
      | Some rd \<Rightarrow>
          if \<not> answer rd > 0 then Inl (Revert (who @ '': invalid price''))
          else bnd (csub (block_timestamp env) (updatedAt rd)) (\<lambda>age.
            if \<not> age \<le> 3600 then Inl (Revert (who @ '': stale price''))
            else Inr rd))"

definition getTokenValueInUSD :: "tx_env \<Rightarrow> engine \<Rightarrow> address \<Rightarrow> nat \<Rightarrow> error + nat" where
  "getTokenValueInUSD env s token amt =
     bnd (freshQuote ''Engine'' env (priceFeeds s token)) (\<lambda>rd.
       bnd (cmul amt (nat (answer rd))) (\<lambda>x.
         bnd (cpow 10 (feed_decimals rd)) (\<lambda>scale. cdiv x scale)))"

definition getUSDValueInToken :: "tx_env \<Rightarrow> engine \<Rightarrow> address \<Rightarrow> nat \<Rightarrow> error + nat" where
  "getUSDValueInToken env s token usdValue =
     bnd (freshQuote ''Engine'' env (priceFeeds s token)) (\<lambda>rd.
       bnd (cpow 10 (feed_decimals rd)) (\<lambda>scale.
         bnd (cmul usdValue scale) (\<lambda>x. cdiv x (nat (answer rd)))))"

text \<open>The loop of \<^verbatim>\<open>_getUserTotalCollateralValue\<close>: tokens with amount 0 are skipped.\<close>

fun collateralValueLoop ::
  "tx_env \<Rightarrow> engine \<Rightarrow> (address \<Rightarrow> nat) \<Rightarrow> address list \<Rightarrow> nat \<Rightarrow> error + nat" where
  "collateralValueLoop env s amounts [] totalValue = Inr totalValue"
| "collateralValueLoop env s amounts (token # rest) totalValue =
     (if amounts token > 0
      then bnd (getTokenValueInUSD env s token (amounts token)) (\<lambda>v.
             bnd (cadd totalValue v) (\<lambda>t. collateralValueLoop env s amounts rest t))
      else collateralValueLoop env s amounts rest totalValue)"

definition getUserTotalCollateralValue :: "tx_env \<Rightarrow> engine \<Rightarrow> address \<Rightarrow> error + nat" where
  "getUserTotalCollateralValue env s user =
     collateralValueLoop env s (collateralAmounts (userDeposits s user))
       (collateralTokens (userDeposits s user)) 0"

text \<open>\<^verbatim>\<open>_isDepegged\<close> is a placeholder that returns false.\<close>

definition isDepegged :: "engine \<Rightarrow> bool" where
  "isDepegged s = False"

text \<open>\<^verbatim>\<open>_distributeYield\<close> changes no state of the engine; it can only revert.\<close>

definition distributeYield :: "tx_env \<Rightarrow> engine \<Rightarrow> nat \<Rightarrow> error + unit" where
  "distributeYield env s yieldAmount =
     (if yieldAmount = 0 then Inr ()
      else bnd (cmul yieldAmount (treasuryYieldPercentage s)) (\<lambda>x.
        bnd (cdiv x 10000) (\<lambda>treasuryAmount.
          if treasuryAmount > 0 \<and> \<not> treasury_deposit_ok env
          then Inl (Revert ''treasury deposit reverted'')
          else Inr ())))"

text \<open>The search loop of \<^verbatim>\<open>deposit\<close> (lines 213 to 219), with its \<^verbatim>\<open>break\<close>.\<close>

fun tokenExists :: "address list \<Rightarrow> address \<Rightarrow> bool" where
  "tokenExists [] token = False"
| "tokenExists (t # rest) token = (if t = token then True else tokenExists rest token)"

text \<open>
  \<^verbatim>\<open>deposit(token, amount)\<close>. The result carries the new state and \<^verbatim>\<open>usbToMint\<close>, the
  amount passed to \<^verbatim>\<open>usbToken.mint\<close> and written to the \<^verbatim>\<open>Deposit\<close> event.
\<close>

definition deposit :: "tx_env \<Rightarrow> engine \<Rightarrow> address \<Rightarrow> nat \<Rightarrow> error + (engine \<times> nat)" where
  "deposit env s token amt =
     (if paused s then Inl (Revert ''Pausable: paused'')
      else if \<not> isSupported (supportedTokens s token) then Inl (Revert ''Engine: token not supported'')
      else if \<not> amt \<ge> minDepositAmount (supportedTokens s token) then Inl (Revert ''Engine: amount too small'')
      else if \<not> amt \<le> maxDepositAmount (supportedTokens s token) then Inl (Revert ''Engine: amount too large'')
      else if \<not> erc20_ok env then Inl (Revert ''SafeERC20: transfer reverted'')
      else bnd (getTokenValueInUSD env s token amt) (\<lambda>usdValue.
        if \<not> usdValue > 0 then Inl (Revert ''Engine: invalid price'')
        else if isDepegged s then Inl (Revert ''Engine: depeg detected, deposits paused'')
        else bnd (cmul usdValue 10000) (\<lambda>x.
          bnd (cdiv x MIN_COLLATERAL_RATIO) (\<lambda>usbToMint.
            case strategy_deposit env token amt of
              None \<Rightarrow> Inl (Revert ''strategy deposit reverted'')
            | Some yieldGenerated \<Rightarrow>
                let userDeposit = userDeposits s (msg_sender env) in
                bnd (cadd (totalDeposited userDeposit) amt) (\<lambda>newDeposited.
                bnd (cadd (usbMinted userDeposit) usbToMint) (\<lambda>newMinted.
                bnd (cadd (collateralAmounts userDeposit token) amt) (\<lambda>newAmount.
                bnd (cadd (totalValueLocked s) usdValue) (\<lambda>newLocked.
                bnd (cadd (totalYieldGenerated s) yieldGenerated) (\<lambda>newYield.
                bnd (distributeYield env s yieldGenerated) (\<lambda>_.
                  if \<not> usb_mint_ok env then Inl (Revert ''USB: mint reverted'')
                  else Inr
                    (s\<lparr>userDeposits := (userDeposits s)(msg_sender env :=
                          userDeposit\<lparr>totalDeposited := newDeposited,
                            usbMinted := newMinted,
                            lastUpdateTimestamp := block_timestamp env,
                            collateralTokens :=
                              (if tokenExists (collateralTokens userDeposit) token
                               then collateralTokens userDeposit
                               else collateralTokens userDeposit @ [token]),
                            collateralAmounts := (collateralAmounts userDeposit)(token := newAmount)\<rparr>),
                        totalValueLocked := newLocked,
                        totalYieldGenerated := newYield\<rparr>,
                     usbToMint)))))))))))"

text \<open>
  The collateralization check of \<^verbatim>\<open>withdraw\<close> (lines 261 to 266); it runs only when some
  debt remains.
\<close>

definition checkRemaining :: "tx_env \<Rightarrow> engine \<Rightarrow> nat \<Rightarrow> nat \<Rightarrow> error + unit" where
  "checkRemaining env s usdValue remainingUSD =
     (if remainingUSD > 0
      then bnd (getUserTotalCollateralValue env s (msg_sender env)) (\<lambda>totalValue.
             bnd (csub totalValue usdValue) (\<lambda>remainingCollateralValue.
               bnd (cmul remainingCollateralValue 10000) (\<lambda>x.
                 bnd (cdiv x remainingUSD) (\<lambda>collateralRatio.
                   if \<not> collateralRatio \<ge> MIN_COLLATERAL_RATIO
                   then Inl (Revert ''Engine: insufficient collateralization'')
                   else Inr ()))))
      else Inr ())"

text \<open>
  \<^verbatim>\<open>withdraw(token, usbAmount)\<close>. The result carries the new state, \<^verbatim>\<open>tokenAmount\<close> (the
  amount asked of the strategy and taken off the position) and \<^verbatim>\<open>actualAmount\<close> (what
  the strategy reports back, written to the \<^verbatim>\<open>Withdrawal\<close> event).
\<close>

definition withdraw :: "tx_env \<Rightarrow> engine \<Rightarrow> address \<Rightarrow> nat \<Rightarrow> error + (engine \<times> nat \<times> nat)" where
  "withdraw env s token usbAmount =
     (if paused s then Inl (Revert ''Pausable: paused'')
      else if \<not> isSupported (supportedTokens s token) then Inl (Revert ''Engine: token not supported'')
      else if \<not> usbAmount > 0 then Inl (Revert ''Engine: amount must be positive'')
      else let userDeposit = userDeposits s (msg_sender env) in
        if \<not> usbMinted userDeposit \<ge> usbAmount then Inl (Revert ''Engine: insufficient USB balance'')
        else if \<not> collateralAmounts userDeposit token > 0 then Inl (Revert ''Engine: no collateral for token'')
        else bnd (cmul usbAmount MIN_COLLATERAL_RATIO) (\<lambda>x.
          bnd (cdiv x 10000) (\<lambda>usdValue.
          bnd (getUSDValueInToken env s token usdValue) (\<lambda>tokenAmount.
            if \<not> tokenAmount \<le> collateralAmounts userDeposit token
            then Inl (Revert ''Engine: insufficient collateral'')
            else bnd (csub (usbMinted userDeposit) usbAmount) (\<lambda>remainingUSD.
              bnd (checkRemaining env s usdValue remainingUSD) (\<lambda>_.
                if \<not> usb_burnFrom_ok env then Inl (Revert ''USB: burnFrom reverted'')
                else case strategy_withdraw env tokenAmount (msg_sender env) of
                  None \<Rightarrow> Inl (Revert ''strategy withdraw reverted'')
                | Some actualAmount \<Rightarrow>
                    bnd (csub (usbMinted userDeposit) usbAmount) (\<lambda>newMinted.
                    bnd (csub (collateralAmounts userDeposit token) tokenAmount) (\<lambda>newAmount.
                    bnd (csub (totalValueLocked s) usdValue) (\<lambda>newLocked.
                      Inr
                        (s\<lparr>userDeposits := (userDeposits s)(msg_sender env :=
                              userDeposit\<lparr>usbMinted := newMinted,
                                collateralAmounts := (collateralAmounts userDeposit)(token := newAmount),
                                lastUpdateTimestamp := block_timestamp env\<rparr>),
                            totalValueLocked := newLocked\<rparr>,
                         tokenAmount, actualAmount))))))))))"

text \<open>
  A sequence of transactions on the engine. A transaction that aborts leaves the state as
  it was.
\<close>

datatype engine_op = Deposit address nat | Withdraw address nat

fun step :: "engine \<Rightarrow> tx_env \<times> engine_op \<Rightarrow> engine" where
  "step s (env, Deposit token amt) =
     (case deposit env s token amt of Inl e \<Rightarrow> s | Inr r \<Rightarrow> fst r)"
| "step s (env, Withdraw token usbAmount) =
     (case withdraw env s token usbAmount of Inl e \<Rightarrow> s | Inr r \<Rightarrow> fst r)"

fun run :: "engine \<Rightarrow> (tx_env \<times> engine_op) list \<Rightarrow> engine" where
  "run s [] = s"
| "run s (t # ts) = run (step s t) ts"

section \<open>Treasury (src/script_4.py)\<close>

datatype role =
  DEFAULT_ADMIN_ROLE | TREASURY_MANAGER_ROLE | EMERGENCY_ROLE | GOVERNOR_ROLE | UPGRADER_ROLE

datatype OperationType = WITHDRAWAL | REBALANCE | EMERGENCY_REPEG | GOVERNANCE_TRANSFER

record ReserveAsset =
  isSupported_T :: bool
  balance :: nat
  targetAllocation :: nat
  currentAllocation :: nat
  lastRebalanceTime :: nat
  yield :: nat
  isStable :: bool

record PendingOperation =
  asset :: address
  amount :: nat
  recipient :: address
  executeAfter :: nat
  opType :: OperationType
  executed :: bool
  reason :: string

type_synonym bytes32 = nat

record treasury =
  reserveAssets :: "address \<Rightarrow> ReserveAsset"
  supportedAssets :: "address list"
  totalReservesUSD :: nat
  emergencyReservePercentage :: nat
  minimumReserveRatio :: nat
  depegThreshold :: nat
  maxSingleWithdrawal :: nat
  timelockDuration :: nat
  pendingOperations :: "bytes32 \<Rightarrow> PendingOperation"
  priceFeeds_T :: "address \<Rightarrow> address"
  circuitBreakerActive :: bool
  paused_T :: bool
  hasRole :: "role \<Rightarrow> address \<Rightarrow> bool"

text \<open>
  \<^verbatim>\<open>abi.encodePacked(asset, amount, recipient, block.timestamp, reason)\<close>: an address is
  20 bytes, a \<^verbatim>\<open>uint256\<close> 32 bytes, both big-endian, and the string its own bytes.
  \<^verbatim>\<open>keccak256\<close> is a primitive of the platform; the operations that hash take it as
  their first argument.
\<close>

definition be_bytes :: "nat \<Rightarrow> nat \<Rightarrow> nat list" where
  "be_bytes n v = map (\<lambda>i. (v div 256 ^ (n - 1 - i)) mod 256) [0..<n]"

definition encodePacked :: "address \<Rightarrow> nat \<Rightarrow> address \<Rightarrow> nat \<Rightarrow> string \<Rightarrow> nat list" where
  "encodePacked a amt rcpt ts rsn =
     be_bytes 20 a @ be_bytes 32 amt @ be_bytes 20 rcpt @ be_bytes 32 ts @ map of_char rsn"

definition getAssetValueInUSD :: "tx_env \<Rightarrow> treasury \<Rightarrow> address \<Rightarrow> nat \<Rightarrow> error + nat" where
  "getAssetValueInUSD env s a amt =
     (if amt = 0 then Inr 0
      else bnd (freshQuote ''Treasury'' env (priceFeeds_T s a)) (\<lambda>rd.
        bnd (cmul amt (nat (answer rd))) (\<lambda>x.
          bnd (cpow 10 (feed_decimals rd)) (\<lambda>scale. cdiv x scale))))"

fun totalReservesLoop :: "tx_env \<Rightarrow> treasury \<Rightarrow> address list \<Rightarrow> nat \<Rightarrow> error + nat" where
  "totalReservesLoop env s [] acc = Inr acc"
| "totalReservesLoop env s (a # rest) acc =
     bnd (getAssetValueInUSD env s a (balance (reserveAssets s a))) (\<lambda>v.
       bnd (cadd acc v) (\<lambda>t. totalReservesLoop env s rest t))"

definition updateTotalReservesUSD :: "tx_env \<Rightarrow> treasury \<Rightarrow> error + treasury" where
  "updateTotalReservesUSD env s =
     bnd (totalReservesLoop env s (supportedAssets s) 0) (\<lambda>newTotal.
       Inr (s\<lparr>totalReservesUSD := newTotal\<rparr>))"

definition updateAssetAllocation :: "tx_env \<Rightarrow> treasury \<Rightarrow> address \<Rightarrow> error + treasury" where
  "updateAssetAllocation env s a =
     (if totalReservesUSD s = 0
      then Inr (s\<lparr>reserveAssets := (reserveAssets s)(a := (reserveAssets s a)\<lparr>currentAllocation := 0\<rparr>)\<rparr>)
      else bnd (getAssetValueInUSD env s a (balance (reserveAssets s a))) (\<lambda>assetValueUSD.
        bnd (cmul assetValueUSD 10000) (\<lambda>x.
          bnd (cdiv x (totalReservesUSD s)) (\<lambda>alloc.
            Inr (s\<lparr>reserveAssets :=
                  (reserveAssets s)(a := (reserveAssets s a)\<lparr>currentAllocation := alloc\<rparr>)\<rparr>)))))"

text \<open>
  \<^verbatim>\<open>queueWithdrawal(asset, amount, recipient, reason)\<close>; it has the role modifier only.
  The result carries the new state and the operation identifier.
\<close>

definition queueWithdrawal ::
  "(nat list \<Rightarrow> bytes32) \<Rightarrow> tx_env \<Rightarrow> treasury \<Rightarrow> address \<Rightarrow> nat \<Rightarrow> address \<Rightarrow> string
     \<Rightarrow> error + (treasury \<times> bytes32)" where
  "queueWithdrawal keccak256 env s a amt rcpt rsn =
     (if \<not> hasRole s TREASURY_MANAGER_ROLE (msg_sender env)
      then Inl (Revert ''AccessControl: account is missing role'')
      else if \<not> isSupported_T (reserveAssets s a) then Inl (Revert ''Treasury: asset not supported'')
      else if \<not> amt \<le> balance (reserveAssets s a) then Inl (Revert ''Treasury: insufficient balance'')
      else if \<not> rcpt \<noteq> 0 then Inl (Revert ''Treasury: invalid recipient'')
      else bnd (cmul amt 10000) (\<lambda>x.
        bnd (cdiv x (totalReservesUSD s)) (\<lambda>withdrawalPercentage.
          bnd (if withdrawalPercentage > maxSingleWithdrawal s
               then cadd (block_timestamp env) (timelockDuration s)
               else Inr (block_timestamp env)) (\<lambda>execAfter.
            let operationId = keccak256 (encodePacked a amt rcpt (block_timestamp env) rsn) in
            Inr (s\<lparr>pendingOperations := (pendingOperations s)(operationId :=
                     \<lparr>asset = a, amount = amt, recipient = rcpt, executeAfter = execAfter,
                      opType = WITHDRAWAL, executed = False, reason = rsn\<rparr>)\<rparr>,
                 operationId)))))"

text \<open>The reserve-ratio check of \<^verbatim>\<open>executeWithdrawal\<close> (lines 264 to 267).\<close>

definition checkReserveRatio :: "treasury \<Rightarrow> nat \<Rightarrow> nat \<Rightarrow> error + unit" where
  "checkReserveRatio s newTotalReserves usbSupply =
     (if usbSupply > 0
      then bnd (cmul newTotalReserves 10000) (\<lambda>x.
             bnd (cdiv x usbSupply) (\<lambda>newReserveRatio.
               if \<not> newReserveRatio \<ge> minimumReserveRatio s
               then Inl (Revert ''Treasury: reserve ratio too low'')
               else Inr ()))
      else Inr ())"

definition executeWithdrawal :: "tx_env \<Rightarrow> treasury \<Rightarrow> bytes32 \<Rightarrow> error + treasury" where
  "executeWithdrawal env s operationId =
     (if paused_T s then Inl (Revert ''Pausable: paused'')
      else let operation = pendingOperations s operationId in
        if \<not> executeAfter operation > 0 then Inl (Revert ''Treasury: operation not found'')
        else if \<not> \<not> executed operation then Inl (Revert ''Treasury: already executed'')
        else if \<not> block_timestamp env \<ge> executeAfter operation
          then Inl (Revert ''Treasury: timelock not expired'')
        else if \<not> (hasRole s TREASURY_MANAGER_ROLE (msg_sender env) \<or>
                    hasRole s GOVERNOR_ROLE (msg_sender env))
          then Inl (Revert ''Treasury: unauthorized'')
        else bnd (getAssetValueInUSD env s (asset operation) (amount operation)) (\<lambda>assetValueUSD.
          bnd (csub (totalReservesUSD s) assetValueUSD) (\<lambda>newTotalReserves.
          bnd (checkReserveRatio s newTotalReserves (usb_totalSupply env)) (\<lambda>_.
          bnd (csub (balance (reserveAssets s (asset operation))) (amount operation)) (\<lambda>newBalance.
            let s1 = s\<lparr>reserveAssets := (reserveAssets s)(asset operation :=
                          (reserveAssets s (asset operation))\<lparr>balance := newBalance\<rparr>),
                        pendingOperations := (pendingOperations s)(operationId :=
                          operation\<lparr>executed := True\<rparr>)\<rparr> in
            if \<not> (if asset operation = 0 then eth_transfer_ok env else erc20_ok env)
            then Inl (Revert ''transfer reverted'')
            else bnd (updateTotalReservesUSD env s1) (\<lambda>s2.
              updateAssetAllocation env s2 (asset operation)))))))"

section \<open>The value of a position at given quotes\<close>

text \<open>
  The arithmetic of \<^verbatim>\<open>_getTokenValueInUSD\<close> without its checks, and the sum that
  \<^verbatim>\<open>_getUserTotalCollateralValue\<close> takes over the tokens a position lists. They are used
  to state properties; no operation above calls them.
\<close>

definition valueAt :: "round_data \<Rightarrow> nat \<Rightarrow> nat" where
  "valueAt rd amt = amt * nat (answer rd) div 10 ^ feed_decimals rd"

definition positionValue :: "(address \<Rightarrow> round_data) \<Rightarrow> UserDeposit \<Rightarrow> nat" where
  "positionValue q ud =
     sum_list (map (\<lambda>t. valueAt (q t) (collateralAmounts ud t)) (collateralTokens ud))"

text \<open>A position nobody has touched: every field of the storage struct is zero.\<close>

definition emptyDeposit :: UserDeposit where
  "emptyDeposit = \<lparr>totalDeposited = 0, usbMinted = 0, lastUpdateTimestamp = 0,
     collateralTokens = [], collateralAmounts = (\<lambda>t. 0)\<rparr>"



section \<open>Example states\<close>

text \<open>
  The stable token as the test suite deploys it: \<^verbatim>\<open>initialize\<close> sets the cap to
  \<open>10 ^ 27\<close> and the rate limit to \<open>10 ^ 23\<close> and mints nothing; account 1 holds the
  minter role.
\<close>

definition usb_fresh :: usb where
  "usb_fresh = \<lparr>totalSupply = 0, balanceOf = (\<lambda>a. 0), maxSupply = 1000000000 * 10 ^ 18,
     lastMintBlock = 0, mintingRateLimit = 100000 * 10 ^ 18, currentBlockMinted = 0,
     usbPaused = False, hasMinterRole = (\<lambda>a. a = 1)\<rparr>"

text \<open>
  The engine as the test suite sets it up: one collateral token (address 10) with its
  price feed (address 20, 8 decimals), deposits between 0.1 and 1000 units, no position
  yet. The environment \<open>env_at p now upd\<close> is a call by user 3 at time \<open>now\<close> when the
  feed reports price \<open>p\<close>, updated at \<open>upd\<close>; the strategy pays 5 percent yield and
  returns what is asked of it, as the test suite's mock does.
\<close>

definition engine_fresh :: engine where
  "engine_fresh = \<lparr>
     supportedTokens = (\<lambda>t. if t = 10
        then \<lparr>isSupported = True, minDepositAmount = 10 ^ 17, maxDepositAmount = 1000 * 10 ^ 18,
              liquidationThreshold = 8000, stabilityFee = 200\<rparr>
        else \<lparr>isSupported = False, minDepositAmount = 0, maxDepositAmount = 0,
              liquidationThreshold = 0, stabilityFee = 0\<rparr>),
     userDeposits = (\<lambda>u. emptyDeposit),
     priceFeeds = (\<lambda>t. if t = 10 then 20 else 0),
     emergencyThreshold = 1000, totalValueLocked = 0, totalYieldGenerated = 0,
     treasuryYieldPercentage = 7000, paused = False\<rparr>"

definition feed_at :: "int \<Rightarrow> nat \<Rightarrow> round_data" where
  "feed_at p upd = \<lparr>answer = p, updatedAt = upd, feed_decimals = 8\<rparr>"

definition env_at :: "int \<Rightarrow> nat \<Rightarrow> nat \<Rightarrow> tx_env" where
  "env_at p now upd = \<lparr>msg_sender = 3, block_timestamp = now,
     latestRoundData = (\<lambda>f. if f = 20 then Some (feed_at p upd) else None),
     erc20_ok = True, eth_transfer_ok = True,
     strategy_deposit = (\<lambda>t a. Some (a * 5 div 100)),
     strategy_withdraw = (\<lambda>a to. Some a),
     treasury_deposit_ok = True, usb_mint_ok = True, usb_burnFrom_ok = True,
     usb_totalSupply = 0\<rparr>"

text \<open>The engine after user 3 deposited one unit at 2000 USD, and after the user withdrew
  against the whole debt at the same price.\<close>

definition engine_after_deposit :: engine where
  "engine_after_deposit = engine_fresh\<lparr>
     userDeposits := (\<lambda>u. emptyDeposit)(3 :=
       \<lparr>totalDeposited = 10 ^ 18, usbMinted = 1333333333333333333333,
        lastUpdateTimestamp = 1000000, collateralTokens = [10],
        collateralAmounts = (\<lambda>t. 0)(10 := 10 ^ 18)\<rparr>),
     totalValueLocked := 2000 * 10 ^ 18,
     totalYieldGenerated := 5 * 10 ^ 16\<rparr>"

definition engine_after_withdraw :: engine where
  "engine_after_withdraw = engine_after_deposit\<lparr>
     userDeposits := (userDeposits engine_after_deposit)(3 :=
       \<lparr>totalDeposited = 10 ^ 18, usbMinted = 0,
        lastUpdateTimestamp = 1000000, collateralTokens = [10],
        collateralAmounts = (\<lambda>t. 0)(10 := 1)\<rparr>),
     totalValueLocked := 1\<rparr>"




text \<open>
  The treasury of the test suite's timelock test: one reserve asset (address 11, feed 21,
  price 1 USD on 8 decimals) with a balance of \<open>1000 * 10 ^ 6\<close>, a single-withdrawal cap
  of 1000 basis points, a timelock of two days and a minimum reserve ratio of 11000;
  account 4 is the treasury manager. \<open>treasury_weth\<close> is the same treasury holding
  instead one unit (\<open>10 ^ 18\<close>) of an asset (address 10, feed 20) priced at 2000 USD. In
  \<open>treasury_env now supply\<close> account 4 calls at time \<open>now\<close>, both feeds were updated at
  \<open>now\<close>, and the stable token reports the total supply \<open>supply\<close>. \<open>example_hash\<close>
  stands for \<^verbatim>\<open>keccak256\<close> in the examples.
\<close>

definition no_asset :: ReserveAsset where
  "no_asset = \<lparr>isSupported_T = False, balance = 0, targetAllocation = 0, currentAllocation = 0,
     lastRebalanceTime = 0, yield = 0, isStable = False\<rparr>"

definition no_operation :: PendingOperation where
  "no_operation = \<lparr>asset = 0, amount = 0, recipient = 0, executeAfter = 0, opType = WITHDRAWAL,
     executed = False, reason = []\<rparr>"

definition treasury_usdc :: treasury where
  "treasury_usdc = \<lparr>
     reserveAssets = (\<lambda>a. no_asset)(11 :=
       \<lparr>isSupported_T = True, balance = 1000 * 10 ^ 6, targetAllocation = 5000,
        currentAllocation = 10000, lastRebalanceTime = 0, yield = 0, isStable = True\<rparr>),
     supportedAssets = [11],
     totalReservesUSD = 1000 * 10 ^ 6,
     emergencyReservePercentage = 2000, minimumReserveRatio = 11000, depegThreshold = 500,
     maxSingleWithdrawal = 1000, timelockDuration = 172800,
     pendingOperations = (\<lambda>i. no_operation),
     priceFeeds_T = (\<lambda>a. if a = 10 then 20 else if a = 11 then 21 else 0),
     circuitBreakerActive = False, paused_T = False,
     hasRole = (\<lambda>r a. a = 4 \<and> (r = TREASURY_MANAGER_ROLE \<or> r = DEFAULT_ADMIN_ROLE))\<rparr>"

definition treasury_weth :: treasury where
  "treasury_weth = treasury_usdc\<lparr>
     reserveAssets := (\<lambda>a. no_asset)(10 :=
       \<lparr>isSupported_T = True, balance = 10 ^ 18, targetAllocation = 5000,
        currentAllocation = 10000, lastRebalanceTime = 0, yield = 0, isStable = False\<rparr>),
     supportedAssets := [10],
     totalReservesUSD := 2000 * 10 ^ 18\<rparr>"

definition treasury_env :: "nat \<Rightarrow> nat \<Rightarrow> tx_env" where
  "treasury_env now supply = \<lparr>msg_sender = 4, block_timestamp = now,
     latestRoundData = (\<lambda>f. if f = 20 then Some (feed_at (2000 * 10 ^ 8) now)
        else if f = 21 then Some (feed_at (10 ^ 8) now) else None),
     erc20_ok = True, eth_transfer_ok = True,
     strategy_deposit = (\<lambda>t a. Some (a * 5 div 100)),
     strategy_withdraw = (\<lambda>a to. Some a),
     treasury_deposit_ok = True, usb_mint_ok = True, usb_burnFrom_ok = True,
     usb_totalSupply = supply\<rparr>"

definition example_hash :: "nat list \<Rightarrow> bytes32" where
  "example_hash bs = foldr (\<lambda>b h. (b + 257 * h) mod 2 ^ 256) bs 0"

text \<open>
  The timelock test: the manager queues a withdrawal of \<open>900 * 10 ^ 6\<close> at time 1000000,
  which is 9000 basis points of the reserves, and executes it after the two days.
\<close>

definition timelock_id :: bytes32 where
  "timelock_id = example_hash (encodePacked 11 (900 * 10 ^ 6) 4 1000000 ''Test withdrawal'')"

definition treasury_queued :: treasury where
  "treasury_queued = treasury_usdc\<lparr>pendingOperations := (\<lambda>i. no_operation)(timelock_id :=
     \<lparr>asset = 11, amount = 900 * 10 ^ 6, recipient = 4, executeAfter = 1172800,
      opType = WITHDRAWAL, executed = False, reason = ''Test withdrawal''\<rparr>)\<rparr>"


text \<open>
  The treasury before any deposit, and the treasury holding one unit worth 2000 USD after
  the manager queued the withdrawal of that whole unit at time 1000000.
\<close>

definition treasury_empty :: treasury where
  "treasury_empty = treasury_usdc\<lparr>
     reserveAssets := (\<lambda>a. no_asset)(11 :=
       \<lparr>isSupported_T = True, balance = 0, targetAllocation = 5000,
        currentAllocation = 0, lastRebalanceTime = 0, yield = 0, isStable = True\<rparr>),
     totalReservesUSD := 0\<rparr>"

definition weth_id :: bytes32 where
  "weth_id = example_hash (encodePacked 10 (10 ^ 18) 4 1000000 ''Whole reserve'')"

definition treasury_weth_queued :: treasury where
  "treasury_weth_queued = treasury_weth\<lparr>pendingOperations := (\<lambda>i. no_operation)(weth_id :=
     \<lparr>asset = 10, amount = 10 ^ 18, recipient = 4, executeAfter = 1000000,
      opType = WITHDRAWAL, executed = False, reason = ''Whole reserve''\<rparr>)\<rparr>"

text \<open>
  A withdrawal of \<open>50 * 10 ^ 6\<close>, 500 basis points of the reserves, queued and executed at
  time 1000000, then queued again with the same arguments in the same block and executed
  again.
\<close>

definition small_id :: bytes32 where
  "small_id = example_hash (encodePacked 11 (50 * 10 ^ 6) 4 1000000 ''Small withdrawal'')"

definition small_operation :: "bool \<Rightarrow> PendingOperation" where
  "small_operation done = \<lparr>asset = 11, amount = 50 * 10 ^ 6, recipient = 4,
     executeAfter = 1000000, opType = WITHDRAWAL, executed = done, reason = ''Small withdrawal''\<rparr>"

definition treasury_small :: "nat \<Rightarrow> bool \<Rightarrow> treasury" where
  "treasury_small bal done = treasury_usdc\<lparr>
     reserveAssets := (\<lambda>a. no_asset)(11 :=
       \<lparr>isSupported_T = True, balance = bal, targetAllocation = 5000,
        currentAllocation = 10000, lastRebalanceTime = 0, yield = 0, isStable = True\<rparr>),
     totalReservesUSD := bal,
     pendingOperations := (\<lambda>i. no_operation)(small_id := small_operation done)\<rparr>"

section \<open>Facts about the checked operations\<close>

lemma bnd_simps [simp]: "bnd (Inl e) f = Inl e" "bnd (Inr v) f = f v"
  by (simp_all add: bnd_def)

lemma bnd_Inr_iff: "bnd m f = Inr r \<longleftrightarrow> (\<exists>v. m = Inr v \<and> f v = Inr r)"
  by (cases m) simp_all

lemma cadd_Inr_iff: "cadd a b = Inr c \<longleftrightarrow> a + b \<le> MAX_UINT256 \<and> c = a + b"
  by (auto simp: cadd_def)

lemma csub_Inr_iff: "csub a b = Inr c \<longleftrightarrow> b \<le> a \<and> c = a - b"
  by (auto simp: csub_def)

lemma cmul_Inr_iff: "cmul a b = Inr c \<longleftrightarrow> a * b \<le> MAX_UINT256 \<and> c = a * b"
  by (auto simp: cmul_def)

lemma cdiv_Inr_iff: "cdiv a b = Inr c \<longleftrightarrow> b \<noteq> 0 \<and> c = a div b"
  by (auto simp: cdiv_def)

lemma cpow_Inr_iff: "cpow a b = Inr c \<longleftrightarrow> a ^ b \<le> MAX_UINT256 \<and> c = a ^ b"
  by (auto simp: cpow_def)

lemma failed_simps [simp]: "failed (Inl e) = True" "failed (Inr v) = False"
  by (simp_all add: failed_def)

lemma failed_iff: "failed r \<longleftrightarrow> (\<forall>v. r \<noteq> Inr v)"
  by (cases r) simp_all

lemmas checked_iffs = bnd_Inr_iff cadd_Inr_iff csub_Inr_iff cmul_Inr_iff cdiv_Inr_iff cpow_Inr_iff

section \<open>The supply controller\<close>

lemma mint_zero_supply_fails:
  "totalSupply s = 0 \<Longrightarrow> failed (mint sender blockNumber s to amt)"
  by (auto simp: failed_iff mint_def rollBlock_def checked_iffs Let_def split: if_splits)

lemma mint_Inr_iff:
  "mint sender blockNumber s to amt = Inr s' \<longleftrightarrow>
     hasMinterRole s sender \<and> \<not> usbPaused s \<and> to \<noteq> 0 \<and> 0 < amt \<and>
     totalSupply s + amt \<le> MAX_UINT256 \<and> totalSupply s + amt \<le> maxSupply s \<and>
     currentBlockMinted (rollBlock blockNumber s) + amt \<le> MAX_UINT256 \<and>
     currentBlockMinted (rollBlock blockNumber s) + amt \<le> mintingRateLimit s \<and>
     amt * 10000 \<le> MAX_UINT256 \<and> totalSupply s \<noteq> 0 \<and>
     amt * 10000 div totalSupply s \<le> CIRCUIT_BREAKER_THRESHOLD \<and>
     s' = s\<lparr>lastMintBlock := blockNumber,
            currentBlockMinted := currentBlockMinted (rollBlock blockNumber s) + amt,
            totalSupply := totalSupply s + amt,
            balanceOf := (balanceOf s)(to := balanceOf s to + amt)\<rparr>"
  by (auto simp: mint_def rollBlock_def erc20_mint_def checked_iffs Let_def)


text \<open>
  Claim C2. The claim reads: the first mint is special-cased, so that a mint into zero
  supply is not rejected by the circuit breaker and \<^verbatim>\<open>mint\<close> never divides by zero. The
  code computes \<^verbatim>\<open>(amount * 10000) / totalSupply()\<close> with no guard (line 118): on the token
  as the test suite deploys it, with no supply yet, a mint by the minter that passes every
  earlier check aborts with the division-by-zero panic. \<open>mint_zero_supply_fails\<close> above
  shows that no mint at all succeeds while the supply is zero.
\<close>

theorem mint_into_zero_supply_panics:
  "mint 1 100 usb_fresh 2 (1000 * 10 ^ 18) = Inl (Panic PANIC_DIV_ZERO)"
  by (simp add: mint_def usb_fresh_def rollBlock_def cadd_def cmul_def cdiv_def MAX_UINT256_def)

lemma mints_zero_supply: "totalSupply s = 0 \<Longrightarrow> mints s calls = s"
proof (induction calls)
  case Nil
  then show ?case by simp
next
  case (Cons c calls)
  obtain sender blockNumber to amt where c: "c = (sender, blockNumber, to, amt)"
    by (cases c)
  from Cons.prems mint_zero_supply_fails [of s sender blockNumber to amt]
  obtain e where "mint sender blockNumber s to amt = Inl e"
    by (cases "mint sender blockNumber s to amt") simp_all
  with c Cons show ?case by simp
qed

text \<open>
  Claim C6. The claim reads: minting exactly the rate limit within one period succeeds, one
  more unit in the same period fails, and after the period advances the same mint succeeds
  again. The rate-limit check itself is as the claim says: on the deployed token a mint
  of the limit plus one is rejected with the rate-limit error (second conjunct), and a
  mint of exactly the limit passes it. But that mint then reaches the unguarded division
  of line 118 and aborts with the division-by-zero panic (first conjunct), the defect of
  C2. The scenario cannot be run later either: \<^verbatim>\<open>initialize\<close> mints nothing and every
  sequence of \<^verbatim>\<open>mint\<close> calls leaves the deployed token as it was (third conjunct), so no
  state with a positive supply is ever reached.
\<close>

theorem mint_of_rate_limit_panics:
  "mint 1 100 usb_fresh 2 (mintingRateLimit usb_fresh) = Inl (Panic PANIC_DIV_ZERO) \<and>
   mint 1 100 usb_fresh 2 (mintingRateLimit usb_fresh + 1)
     = Inl (Revert ''USB: exceeds minting rate limit'') \<and>
   mints usb_fresh calls = usb_fresh"
proof (intro conjI)
  show "mint 1 100 usb_fresh 2 (mintingRateLimit usb_fresh) = Inl (Panic PANIC_DIV_ZERO)"
    by (simp add: mint_def usb_fresh_def rollBlock_def cadd_def cmul_def cdiv_def MAX_UINT256_def)
  show "mint 1 100 usb_fresh 2 (mintingRateLimit usb_fresh + 1)
     = Inl (Revert ''USB: exceeds minting rate limit'')"
    by (simp add: mint_def usb_fresh_def rollBlock_def cadd_def MAX_UINT256_def)
  show "mints usb_fresh calls = usb_fresh"
    by (rule mints_zero_supply) (simp add: usb_fresh_def)
qed

section \<open>The engine: when deposit and withdraw succeed\<close>

lemma freshQuote_Inr_iff:
  "freshQuote who env f = Inr rd \<longleftrightarrow>
     f \<noteq> 0 \<and> latestRoundData env f = Some rd \<and> 0 < answer rd \<and>
     updatedAt rd \<le> block_timestamp env \<and> block_timestamp env - updatedAt rd \<le> 3600"
  by (auto simp: freshQuote_def checked_iffs split: option.splits)

lemma getTokenValueInUSD_Inr_iff:
  "getTokenValueInUSD env s token amt = Inr v \<longleftrightarrow>
     (\<exists>rd. freshQuote ''Engine'' env (priceFeeds s token) = Inr rd \<and>
        amt * nat (answer rd) \<le> MAX_UINT256 \<and> 10 ^ feed_decimals rd \<le> MAX_UINT256 \<and>
        v = amt * nat (answer rd) div 10 ^ feed_decimals rd)"
  by (auto simp: getTokenValueInUSD_def checked_iffs)

lemma getUSDValueInToken_Inr_iff:
  "getUSDValueInToken env s token usdValue = Inr v \<longleftrightarrow>
     (\<exists>rd. freshQuote ''Engine'' env (priceFeeds s token) = Inr rd \<and>
        10 ^ feed_decimals rd \<le> MAX_UINT256 \<and>
        usdValue * 10 ^ feed_decimals rd \<le> MAX_UINT256 \<and>
        v = usdValue * 10 ^ feed_decimals rd div nat (answer rd))"
  by (auto simp: getUSDValueInToken_def checked_iffs freshQuote_Inr_iff)

lemma tokenExists_iff: "tokenExists ts token \<longleftrightarrow> token \<in> set ts"
  by (induction ts) auto

lemma deposit_Inr_iff:
  "deposit env s token amt = Inr (s', m) \<longleftrightarrow>
     \<not> paused s \<and> isSupported (supportedTokens s token) \<and>
     minDepositAmount (supportedTokens s token) \<le> amt \<and>
     amt \<le> maxDepositAmount (supportedTokens s token) \<and> erc20_ok env \<and>
     (\<exists>usdValue yieldGenerated.
        getTokenValueInUSD env s token amt = Inr usdValue \<and> 0 < usdValue \<and>
        usdValue * 10000 \<le> MAX_UINT256 \<and> m = usdValue * 10000 div MIN_COLLATERAL_RATIO \<and>
        strategy_deposit env token amt = Some yieldGenerated \<and>
        totalDeposited (userDeposits s (msg_sender env)) + amt \<le> MAX_UINT256 \<and>
        usbMinted (userDeposits s (msg_sender env)) + m \<le> MAX_UINT256 \<and>
        collateralAmounts (userDeposits s (msg_sender env)) token + amt \<le> MAX_UINT256 \<and>
        totalValueLocked s + usdValue \<le> MAX_UINT256 \<and>
        totalYieldGenerated s + yieldGenerated \<le> MAX_UINT256 \<and>
        distributeYield env s yieldGenerated = Inr () \<and> usb_mint_ok env \<and>
        s' = s\<lparr>userDeposits := (userDeposits s)(msg_sender env :=
                (userDeposits s (msg_sender env))\<lparr>
                  totalDeposited := totalDeposited (userDeposits s (msg_sender env)) + amt,
                  usbMinted := usbMinted (userDeposits s (msg_sender env)) + m,
                  lastUpdateTimestamp := block_timestamp env,
                  collateralTokens :=
                    (if token \<in> set (collateralTokens (userDeposits s (msg_sender env)))
                     then collateralTokens (userDeposits s (msg_sender env))
                     else collateralTokens (userDeposits s (msg_sender env)) @ [token]),
                  collateralAmounts := (collateralAmounts (userDeposits s (msg_sender env)))
                    (token := collateralAmounts (userDeposits s (msg_sender env)) token + amt)\<rparr>),
              totalValueLocked := totalValueLocked s + usdValue,
              totalYieldGenerated := totalYieldGenerated s + yieldGenerated\<rparr>)"
  by (auto simp: deposit_def checked_iffs isDepegged_def MIN_COLLATERAL_RATIO_def Let_def
      tokenExists_iff split: option.splits)

lemma checkRemaining_Inr_iff:
  "checkRemaining env s usdValue remainingUSD = Inr u \<longleftrightarrow>
     remainingUSD = 0 \<or>
     (\<exists>totalValue. getUserTotalCollateralValue env s (msg_sender env) = Inr totalValue \<and>
        usdValue \<le> totalValue \<and> (totalValue - usdValue) * 10000 \<le> MAX_UINT256 \<and>
        MIN_COLLATERAL_RATIO \<le> (totalValue - usdValue) * 10000 div remainingUSD)"
  by (auto simp: checkRemaining_def checked_iffs)


lemma withdraw_Inr_iff:
  "withdraw env s token usbAmount = Inr (s', tokenAmount, actualAmount) \<longleftrightarrow>
     (\<not> paused s \<and> isSupported (supportedTokens s token) \<and> 0 < usbAmount \<and>
     usbAmount \<le> usbMinted (userDeposits s (msg_sender env)) \<and>
     0 < collateralAmounts (userDeposits s (msg_sender env)) token \<and>
     usbAmount * MIN_COLLATERAL_RATIO \<le> MAX_UINT256 \<and>
     getUSDValueInToken env s token (usbAmount * MIN_COLLATERAL_RATIO div 10000) = Inr tokenAmount \<and>
     tokenAmount \<le> collateralAmounts (userDeposits s (msg_sender env)) token \<and>
     checkRemaining env s (usbAmount * MIN_COLLATERAL_RATIO div 10000)
       (usbMinted (userDeposits s (msg_sender env)) - usbAmount) = Inr () \<and>
     usb_burnFrom_ok env \<and> strategy_withdraw env tokenAmount (msg_sender env) = Some actualAmount \<and>
     usbAmount * MIN_COLLATERAL_RATIO div 10000 \<le> totalValueLocked s \<and>
     s' = s\<lparr>userDeposits := (userDeposits s)(msg_sender env :=
             (userDeposits s (msg_sender env))\<lparr>
               usbMinted := usbMinted (userDeposits s (msg_sender env)) - usbAmount,
               collateralAmounts := (collateralAmounts (userDeposits s (msg_sender env)))
                 (token := collateralAmounts (userDeposits s (msg_sender env)) token - tokenAmount),
               lastUpdateTimestamp := block_timestamp env\<rparr>),
           totalValueLocked := totalValueLocked s - usbAmount * MIN_COLLATERAL_RATIO div 10000\<rparr>)"
  (is "_ \<longleftrightarrow> ?rhs")
proof
  assume "withdraw env s token usbAmount = Inr (s', tokenAmount, actualAmount)"
  then show "?rhs"
    unfolding withdraw_def Let_def
    by (auto simp: checked_iffs split: option.splits if_splits)
next
  assume "?rhs"
  then show "withdraw env s token usbAmount = Inr (s', tokenAmount, actualAmount)"
    unfolding withdraw_def Let_def
    by (simp add: checked_iffs)
qed

lemma roundtrip_le:
  fixes a p D :: nat
  assumes "0 < p"
  shows "((a * p div D) * 10000 div 15000 * 15000 div 10000) * D div p \<le> a"
proof -
  define u where "u = a * p div D"
  have "u * 10000 div 15000 * 15000 \<le> u * 10000"
    by (rule div_times_less_eq_dividend)
  then have "u * 10000 div 15000 * 15000 div 10000 \<le> u * 10000 div 10000"
    by (rule div_le_mono)
  then have "u * 10000 div 15000 * 15000 div 10000 \<le> u"
    by simp
  then have "(u * 10000 div 15000 * 15000 div 10000) * D \<le> u * D"
    by (rule mult_le_mono1)
  also have "u * D \<le> a * p"
    unfolding u_def by (rule div_times_less_eq_dividend)
  finally have "(u * 10000 div 15000 * 15000 div 10000) * D div p \<le> a * p div p"
    by (rule div_le_mono)
  with assms show ?thesis
    by (simp add: u_def)
qed

lemmas example_defs = env_at_def engine_fresh_def feed_at_def emptyDeposit_def

lemma example_deposit:
  "deposit (env_at (2000 * 10 ^ 8) 1000000 1000000) engine_fresh 10 (10 ^ 18)
     = Inr (engine_after_deposit, 1333333333333333333333)"
  by (simp add: deposit_Inr_iff getTokenValueInUSD_Inr_iff freshQuote_Inr_iff example_defs
      engine_after_deposit_def MAX_UINT256_def MIN_COLLATERAL_RATIO_def distributeYield_def
      checked_iffs)

lemma example_withdraw:
  "withdraw (env_at (2000 * 10 ^ 8) 1000000 1000000) engine_after_deposit 10 1333333333333333333333
     = Inr (engine_after_withdraw, 999999999999999999, 999999999999999999)"
  by (simp add: withdraw_Inr_iff getUSDValueInToken_Inr_iff freshQuote_Inr_iff example_defs
      engine_after_deposit_def engine_after_withdraw_def MAX_UINT256_def MIN_COLLATERAL_RATIO_def
      checkRemaining_Inr_iff)

lemma collateralValueLoop_fresh:
  "collateralValueLoop env s amounts ts acc = Inr v \<Longrightarrow> t \<in> set ts \<Longrightarrow> 0 < amounts t \<Longrightarrow>
     \<exists>rd. freshQuote ''Engine'' env (priceFeeds s t) = Inr rd"
proof (induction ts arbitrary: acc)
  case Nil
  then show ?case by simp
next
  case (Cons a ts)
  show ?case
  proof (cases "0 < amounts a")
    case True
    with Cons.prems(1) obtain v1 where
      v1: "getTokenValueInUSD env s a (amounts a) = Inr v1" and
      rest: "collateralValueLoop env s amounts ts (acc + v1) = Inr v"
      by (auto simp: checked_iffs)
    show ?thesis
    proof (cases "t = a")
      case True
      with v1 show ?thesis by (auto simp: getTokenValueInUSD_Inr_iff)
    next
      case False
      with Cons.prems(2) have "t \<in> set ts" by simp
      from Cons.IH [OF rest this Cons.prems(3)] show ?thesis .
    qed
  next
    case False
    with Cons.prems have "collateralValueLoop env s amounts ts acc = Inr v" "t \<in> set ts"
      by auto
    from Cons.IH [OF this Cons.prems(3)] show ?thesis .
  qed
qed

lemma getUserTotalCollateralValue_fresh:
  "getUserTotalCollateralValue env s user = Inr v \<Longrightarrow>
   t \<in> set (collateralTokens (userDeposits s user)) \<Longrightarrow>
   0 < collateralAmounts (userDeposits s user) t \<Longrightarrow>
   \<exists>rd. freshQuote ''Engine'' env (priceFeeds s t) = Inr rd"
  unfolding getUserTotalCollateralValue_def by (rule collateralValueLoop_fresh)

lemma deposit_fresh:
  "deposit env s token amt = Inr r \<Longrightarrow>
     \<exists>rd. freshQuote ''Engine'' env (priceFeeds s token) = Inr rd"
  by (cases r) (auto simp: deposit_Inr_iff getTokenValueInUSD_Inr_iff)

lemma withdraw_fresh:
  "withdraw env s token usbAmount = Inr r \<Longrightarrow>
     \<exists>rd. freshQuote ''Engine'' env (priceFeeds s token) = Inr rd"
  by (cases r) (auto simp: withdraw_Inr_iff getUSDValueInToken_Inr_iff)

lemma withdraw_fresh_held:
  assumes "withdraw env s token usbAmount = Inr r"
    and "usbAmount < usbMinted (userDeposits s (msg_sender env))"
    and "t \<in> set (collateralTokens (userDeposits s (msg_sender env)))"
    and "0 < collateralAmounts (userDeposits s (msg_sender env)) t"
  shows "\<exists>rd. freshQuote ''Engine'' env (priceFeeds s t) = Inr rd"
proof -
  obtain s' ta aa where r: "r = (s', ta, aa)" by (cases r)
  with assms(1) have "checkRemaining env s (usbAmount * MIN_COLLATERAL_RATIO div 10000)
       (usbMinted (userDeposits s (msg_sender env)) - usbAmount) = Inr ()"
    by (simp add: withdraw_Inr_iff)
  with assms(2) obtain v where "getUserTotalCollateralValue env s (msg_sender env) = Inr v"
    by (auto simp: checkRemaining_Inr_iff)
  from getUserTotalCollateralValue_fresh [OF this assms(3) assms(4)] show ?thesis .
qed

lemma deposit_totalDeposited:
  "deposit env s token amt = Inr r \<Longrightarrow>
     totalDeposited (userDeposits s u) \<le> totalDeposited (userDeposits (fst r) u)"
  by (cases r) (auto simp: deposit_Inr_iff)

lemma withdraw_totalDeposited:
  "withdraw env s token usbAmount = Inr r \<Longrightarrow>
     totalDeposited (userDeposits (fst r) u) = totalDeposited (userDeposits s u)"
  by (cases r) (auto simp: withdraw_Inr_iff)

lemma step_totalDeposited:
  "totalDeposited (userDeposits s u) \<le> totalDeposited (userDeposits (step s t) u)"
proof (cases t)
  case (Pair env op)
  show ?thesis
  proof (cases op)
    case (Deposit token amt)
    with Pair show ?thesis
      by (auto split: sum.splits dest: deposit_totalDeposited)
  next
    case (Withdraw token usbAmount)
    with Pair show ?thesis
      by (auto split: sum.splits dest: withdraw_totalDeposited [where u = u])
  qed
qed

lemma run_totalDeposited:
  "totalDeposited (userDeposits s u) \<le> totalDeposited (userDeposits (run s ops) u)"
proof (induction ops arbitrary: s)
  case Nil
  show ?case by simp
next
  case (Cons t ops)
  have "totalDeposited (userDeposits s u) \<le> totalDeposited (userDeposits (step s t) u)"
    by (rule step_totalDeposited)
  also have "\<dots> \<le> totalDeposited (userDeposits (run (step s t) ops) u)"
    by (rule Cons.IH)
  finally show ?case by simp
qed



lemma valueAt_zero [simp]: "valueAt rd 0 = 0"
  by (simp add: valueAt_def)




lemma positionValue_upd:
  "positionValue q (ud\<lparr>collateralAmounts := (collateralAmounts ud)(t := n)\<rparr>)
     = sum_list (map ((\<lambda>t'. valueAt (q t') (collateralAmounts ud t'))(t := valueAt (q t) n))
         (collateralTokens ud))"
  unfolding positionValue_def by (rule arg_cong [where f = sum_list]) (simp cong: map_cong)















section \<open>The engine: claims\<close>

text \<open>
  Claim C5. First conjunct: a deposit that succeeds used the quote \<open>rd\<close> the feed of the
  token reports in this transaction, its \<^verbatim>\<open>usbToMint\<close> is
  \<open>(amount * price div 10 ^ decimals) * 10000 div 15000\<close> with truncating division, the
  position's debt grows by exactly that, and a withdrawal against that whole minted amount
  at a quote of the same price and decimals takes a token amount no greater than the
  amount deposited. Second to fourth conjunct, the scenario: one unit (\<open>10 ^ 18\<close>) at 2000
  USD on an 8-decimal feed mints \<open>2000 * 10 ^ 18 * 10000 div 15000\<close>, and withdrawing
  all of it at the same price takes 999999999999999999, less than the unit deposited.
\<close>

theorem deposit_mints_two_thirds:
  "(deposit env s token amt = Inr (s', m) \<longrightarrow>
      (\<exists>rd. latestRoundData env (priceFeeds s token) = Some rd \<and>
         m = (amt * nat (answer rd) div 10 ^ feed_decimals rd) * 10000 div 15000 \<and>
         usbMinted (userDeposits s' (msg_sender env))
           = usbMinted (userDeposits s (msg_sender env)) + m \<and>
         (\<forall>env2 s2 s3 rd2 tokenAmount actualAmount.
            withdraw env2 s2 token m = Inr (s3, tokenAmount, actualAmount) \<and>
            latestRoundData env2 (priceFeeds s2 token) = Some rd2 \<and>
            answer rd2 = answer rd \<and> feed_decimals rd2 = feed_decimals rd
            \<longrightarrow> tokenAmount \<le> amt))) \<and>
   deposit (env_at (2000 * 10 ^ 8) 1000000 1000000) engine_fresh 10 (10 ^ 18)
     = Inr (engine_after_deposit, 2000 * 10 ^ 18 * 10000 div 15000) \<and>
   withdraw (env_at (2000 * 10 ^ 8) 1000000 1000000) engine_after_deposit 10
       (2000 * 10 ^ 18 * 10000 div 15000)
     = Inr (engine_after_withdraw, 999999999999999999, 999999999999999999) \<and>
   (999999999999999999::nat) \<le> 10 ^ 18"
proof (intro conjI impI)
  assume ok: "deposit env s token amt = Inr (s', m)"
  then obtain rd where
    q: "freshQuote ''Engine'' env (priceFeeds s token) = Inr rd" and
    m: "m = (amt * nat (answer rd) div 10 ^ feed_decimals rd) * 10000 div 15000"
    by (auto simp: deposit_Inr_iff getTokenValueInUSD_Inr_iff MIN_COLLATERAL_RATIO_def)
  from q have feed: "latestRoundData env (priceFeeds s token) = Some rd" and pos: "0 < answer rd"
    by (simp_all add: freshQuote_Inr_iff)
  from ok have minted: "usbMinted (userDeposits s' (msg_sender env))
      = usbMinted (userDeposits s (msg_sender env)) + m"
    by (auto simp: deposit_Inr_iff)
  have noGain: "tokenAmount \<le> amt"
    if w: "withdraw env2 s2 token m = Inr (s3, tokenAmount, actualAmount)"
      and f2: "latestRoundData env2 (priceFeeds s2 token) = Some rd2"
      and same: "answer rd2 = answer rd" "feed_decimals rd2 = feed_decimals rd"
    for env2 s2 s3 rd2 tokenAmount actualAmount
  proof -
    from w f2 have "tokenAmount
        = (m * 15000 div 10000) * 10 ^ feed_decimals rd2 div nat (answer rd2)"
      by (auto simp: withdraw_Inr_iff getUSDValueInToken_Inr_iff freshQuote_Inr_iff
          MIN_COLLATERAL_RATIO_def)
    with same m pos roundtrip_le [of "nat (answer rd)" amt "10 ^ feed_decimals rd"]
    show ?thesis by simp
  qed
  from feed m minted noGain
  show "\<exists>rd. latestRoundData env (priceFeeds s token) = Some rd \<and>
         m = (amt * nat (answer rd) div 10 ^ feed_decimals rd) * 10000 div 15000 \<and>
         usbMinted (userDeposits s' (msg_sender env))
           = usbMinted (userDeposits s (msg_sender env)) + m \<and>
         (\<forall>env2 s2 s3 rd2 tokenAmount actualAmount.
            withdraw env2 s2 token m = Inr (s3, tokenAmount, actualAmount) \<and>
            latestRoundData env2 (priceFeeds s2 token) = Some rd2 \<and>
            answer rd2 = answer rd \<and> feed_decimals rd2 = feed_decimals rd
            \<longrightarrow> tokenAmount \<le> amt)"
    by blast
next
  show "deposit (env_at (2000 * 10 ^ 8) 1000000 1000000) engine_fresh 10 (10 ^ 18)
     = Inr (engine_after_deposit, 2000 * 10 ^ 18 * 10000 div 15000)"
    using example_deposit by simp
next
  show "withdraw (env_at (2000 * 10 ^ 8) 1000000 1000000) engine_after_deposit 10
       (2000 * 10 ^ 18 * 10000 div 15000)
     = Inr (engine_after_withdraw, 999999999999999999, 999999999999999999)"
    using example_withdraw by simp
next
  show "(999999999999999999::nat) \<le> 10 ^ 18" by simp
qed


text \<open>The hypotheses of C5 hold in the scenario: the deposit and the withdrawal succeed.\<close>

theorem deposit_mints_two_thirds_witness:
  "\<exists>rd tokenAmount.
     latestRoundData (env_at (2000 * 10 ^ 8) 1000000 1000000) (priceFeeds engine_fresh 10) = Some rd \<and>
     answer rd = 2000 * 10 ^ 8 \<and> feed_decimals rd = 8 \<and>
     deposit (env_at (2000 * 10 ^ 8) 1000000 1000000) engine_fresh 10 (10 ^ 18)
       = Inr (engine_after_deposit, 1333333333333333333333) \<and>
     usbMinted (userDeposits engine_after_deposit 3) = 1333333333333333333333 \<and>
     withdraw (env_at (2000 * 10 ^ 8) 1000000 1000000) engine_after_deposit 10 1333333333333333333333
       = Inr (engine_after_withdraw, tokenAmount, tokenAmount) \<and>
     tokenAmount \<le> 10 ^ 18"
proof -
  let ?env = "env_at (2000 * 10 ^ 8) 1000000 1000000"
  let ?m = "2000 * 10 ^ 18 * 10000 div 15000 :: nat"
  note T = deposit_mints_two_thirds [of ?env engine_fresh 10 "10 ^ 18" engine_after_deposit ?m]
  from T have dep: "deposit ?env engine_fresh 10 (10 ^ 18) = Inr (engine_after_deposit, ?m)"
    by blast
  from T have wd: "withdraw ?env engine_after_deposit 10 ?m
      = Inr (engine_after_withdraw, 999999999999999999, 999999999999999999)"
    by blast
  from T dep obtain rd where
    rd: "latestRoundData ?env (priceFeeds engine_fresh 10) = Some rd" and
    minted: "usbMinted (userDeposits engine_after_deposit (msg_sender ?env))
      = usbMinted (userDeposits engine_fresh (msg_sender ?env)) + ?m" and
    noGain: "\<And>env2 s2 s3 rd2 tokenAmount actualAmount.
      withdraw env2 s2 10 ?m = Inr (s3, tokenAmount, actualAmount) \<Longrightarrow>
      latestRoundData env2 (priceFeeds s2 10) = Some rd2 \<Longrightarrow>
      answer rd2 = answer rd \<Longrightarrow> feed_decimals rd2 = feed_decimals rd \<Longrightarrow>
      tokenAmount \<le> 10 ^ 18"
    by blast
  have same: "priceFeeds engine_after_deposit 10 = priceFeeds engine_fresh 10"
    by (simp add: engine_after_deposit_def)
  from noGain [OF wd] rd same have le: "(999999999999999999::nat) \<le> 10 ^ 18"
    by simp
  from rd have q: "answer rd = 2000 * 10 ^ 8" "feed_decimals rd = 8"
    by (auto simp: example_defs)
  from minted have "usbMinted (userDeposits engine_after_deposit 3) = 1333333333333333333333"
    by (simp add: example_defs)
  with rd q dep wd le show ?thesis
    by simp
qed

text \<open>
  Claim C7. Every price lookup of \<^verbatim>\<open>deposit\<close> and \<^verbatim>\<open>withdraw\<close> reads the quote the feed
  reports in this transaction; the engine stores no quote. First conjunct: when the quote
  of the token is non-positive or older than 3600 seconds, both lookups
  (\<^verbatim>\<open>_getTokenValueInUSD\<close>, \<^verbatim>\<open>_getUSDValueInToken\<close>) fail, and with them the whole deposit
  and the whole withdrawal, whatever the state. Second and third conjunct: a deposit or a
  withdrawal that succeeds had a quote of the token that is positive and at most 3600
  seconds old; a withdrawal that leaves debt also had such a quote for every token the
  position lists with a positive amount, since it values all of them.
\<close>

theorem price_lookups_reject_bad_quotes:
  "(latestRoundData env (priceFeeds s token) = Some rd \<and>
    (answer rd \<le> 0 \<or> 3600 < block_timestamp env - updatedAt rd) \<longrightarrow>
      failed (getTokenValueInUSD env s token amt) \<and>
      failed (getUSDValueInToken env s token usdValue) \<and>
      failed (deposit env s token amt) \<and>
      failed (withdraw env s token usbAmount)) \<and>
   (deposit env s token amt = Inr r \<longrightarrow>
      (\<exists>q. latestRoundData env (priceFeeds s token) = Some q \<and> 0 < answer q \<and>
         updatedAt q \<le> block_timestamp env \<and> block_timestamp env - updatedAt q \<le> 3600)) \<and>
   (withdraw env s token usbAmount = Inr w \<longrightarrow>
      (\<exists>q. latestRoundData env (priceFeeds s token) = Some q \<and> 0 < answer q \<and>
         updatedAt q \<le> block_timestamp env \<and> block_timestamp env - updatedAt q \<le> 3600) \<and>
      (usbAmount < usbMinted (userDeposits s (msg_sender env)) \<longrightarrow>
         (\<forall>t \<in> set (collateralTokens (userDeposits s (msg_sender env))).
            0 < collateralAmounts (userDeposits s (msg_sender env)) t \<longrightarrow>
            (\<exists>q. latestRoundData env (priceFeeds s t) = Some q \<and> 0 < answer q \<and>
               updatedAt q \<le> block_timestamp env \<and>
               block_timestamp env - updatedAt q \<le> 3600))))"
proof (intro conjI impI ballI)
  assume bad: "latestRoundData env (priceFeeds s token) = Some rd \<and>
    (answer rd \<le> 0 \<or> 3600 < block_timestamp env - updatedAt rd)"
  then have no: "\<And>rd'. freshQuote ''Engine'' env (priceFeeds s token) \<noteq> Inr rd'"
    by (auto simp: freshQuote_Inr_iff)
  from no show "failed (getTokenValueInUSD env s token amt)"
    by (auto simp: failed_iff getTokenValueInUSD_Inr_iff)
  from no show "failed (getUSDValueInToken env s token usdValue)"
    by (auto simp: failed_iff getUSDValueInToken_Inr_iff)
  from no deposit_fresh show "failed (deposit env s token amt)"
    by (fastforce simp: failed_iff)
  from no withdraw_fresh show "failed (withdraw env s token usbAmount)"
    by (fastforce simp: failed_iff)
next
  assume "deposit env s token amt = Inr r"
  from deposit_fresh [OF this]
  show "\<exists>q. latestRoundData env (priceFeeds s token) = Some q \<and> 0 < answer q \<and>
         updatedAt q \<le> block_timestamp env \<and> block_timestamp env - updatedAt q \<le> 3600"
    by (auto simp: freshQuote_Inr_iff)
next
  assume "withdraw env s token usbAmount = Inr w"
  from withdraw_fresh [OF this]
  show "\<exists>q. latestRoundData env (priceFeeds s token) = Some q \<and> 0 < answer q \<and>
         updatedAt q \<le> block_timestamp env \<and> block_timestamp env - updatedAt q \<le> 3600"
    by (auto simp: freshQuote_Inr_iff)
next
  fix t
  assume "withdraw env s token usbAmount = Inr w"
    and "usbAmount < usbMinted (userDeposits s (msg_sender env))"
    and "t \<in> set (collateralTokens (userDeposits s (msg_sender env)))"
    and "0 < collateralAmounts (userDeposits s (msg_sender env)) t"
  from withdraw_fresh_held [OF this]
  show "\<exists>q. latestRoundData env (priceFeeds s t) = Some q \<and> 0 < answer q \<and>
         updatedAt q \<le> block_timestamp env \<and> block_timestamp env - updatedAt q \<le> 3600"
    by (auto simp: freshQuote_Inr_iff)
qed


text \<open>C7 on the example engine: a quote 10000 seconds old and a price of zero are rejected; the
  quote of the deposit that succeeds is positive and fresh.\<close>

theorem price_lookups_reject_bad_quotes_witness:
  "failed (deposit (env_at (2000 * 10 ^ 8) 1010000 1000000) engine_fresh 10 (10 ^ 18)) \<and>
   failed (withdraw (env_at (2000 * 10 ^ 8) 1010000 1000000) engine_after_deposit 10 1) \<and>
   failed (deposit (env_at 0 1000000 1000000) engine_fresh 10 (10 ^ 18)) \<and>
   (\<exists>q. latestRoundData (env_at (2000 * 10 ^ 8) 1000000 1000000) (priceFeeds engine_fresh 10) = Some q \<and>
        0 < answer q \<and> 1000000 - updatedAt q \<le> 3600)"
proof -
  let ?stale = "env_at (2000 * 10 ^ 8) 1010000 1000000"
  let ?zero = "env_at 0 1000000 1000000"
  let ?good = "env_at (2000 * 10 ^ 8) 1000000 1000000"
  have a: "latestRoundData ?stale (priceFeeds engine_fresh 10) = Some (feed_at (2000 * 10 ^ 8) 1000000) \<and>
      (answer (feed_at (2000 * 10 ^ 8) 1000000) \<le> 0 \<or>
       3600 < block_timestamp ?stale - updatedAt (feed_at (2000 * 10 ^ 8) 1000000))"
    by (simp add: example_defs)
  have b: "latestRoundData ?stale (priceFeeds engine_after_deposit 10) = Some (feed_at (2000 * 10 ^ 8) 1000000) \<and>
      (answer (feed_at (2000 * 10 ^ 8) 1000000) \<le> 0 \<or>
       3600 < block_timestamp ?stale - updatedAt (feed_at (2000 * 10 ^ 8) 1000000))"
    by (simp add: example_defs engine_after_deposit_def)
  have c: "latestRoundData ?zero (priceFeeds engine_fresh 10) = Some (feed_at 0 1000000) \<and>
      (answer (feed_at 0 1000000) \<le> 0 \<or>
       3600 < block_timestamp ?zero - updatedAt (feed_at 0 1000000))"
    by (simp add: example_defs)
  from a price_lookups_reject_bad_quotes
    [of ?stale engine_fresh 10 "feed_at (2000 * 10 ^ 8) 1000000" "10 ^ 18" 0 1]
  have 1: "failed (deposit ?stale engine_fresh 10 (10 ^ 18))"
    by blast
  from b price_lookups_reject_bad_quotes
    [of ?stale engine_after_deposit 10 "feed_at (2000 * 10 ^ 8) 1000000" "10 ^ 18" 0 1]
  have 2: "failed (withdraw ?stale engine_after_deposit 10 1)"
    by blast
  from c price_lookups_reject_bad_quotes
    [of ?zero engine_fresh 10 "feed_at 0 1000000" "10 ^ 18" 0 1]
  have 3: "failed (deposit ?zero engine_fresh 10 (10 ^ 18))"
    by blast
  from example_deposit price_lookups_reject_bad_quotes
    [of ?good engine_fresh 10 _ "10 ^ 18" 0 1 "(engine_after_deposit, 1333333333333333333333)"]
  have "\<exists>q. latestRoundData ?good (priceFeeds engine_fresh 10) = Some q \<and> 0 < answer q \<and>
        updatedAt q \<le> block_timestamp ?good \<and> block_timestamp ?good - updatedAt q \<le> 3600"
    by blast
  moreover have "block_timestamp ?good = 1000000"
    by (simp add: env_at_def)
  ultimately have 4: "\<exists>q. latestRoundData ?good (priceFeeds engine_fresh 10) = Some q \<and>
        0 < answer q \<and> 1000000 - updatedAt q \<le> 3600"
    by auto
  from 1 2 3 4 show ?thesis
    by blast
qed

text \<open>
  Claim C10. First conjunct: a withdrawal that succeeds changes nothing but the caller's
  \<^verbatim>\<open>usbMinted\<close>, the caller's \<^verbatim>\<open>collateralAmounts\<close> entry of the withdrawn token, the
  caller's \<^verbatim>\<open>lastUpdateTimestamp\<close> and the global \<^verbatim>\<open>totalValueLocked\<close>: the new state is
  the old one with these four updated. In particular \<^verbatim>\<open>totalDeposited\<close> of every user is
  as before. Second conjunct: over any sequence of deposits and withdrawals, committed or
  aborted, \<^verbatim>\<open>totalDeposited\<close> of every user never decreases.
\<close>

theorem withdraw_frame:
  "(withdraw env s token usbAmount = Inr (s', tokenAmount, actualAmount) \<longrightarrow>
      s' = s\<lparr>userDeposits := (userDeposits s)(msg_sender env :=
              (userDeposits s (msg_sender env))\<lparr>
                usbMinted := usbMinted (userDeposits s' (msg_sender env)),
                collateralAmounts := (collateralAmounts (userDeposits s (msg_sender env)))
                  (token := collateralAmounts (userDeposits s' (msg_sender env)) token),
                lastUpdateTimestamp := lastUpdateTimestamp (userDeposits s' (msg_sender env))\<rparr>),
            totalValueLocked := totalValueLocked s'\<rparr> \<and>
      totalDeposited (userDeposits s' u) = totalDeposited (userDeposits s u)) \<and>
   totalDeposited (userDeposits s u) \<le> totalDeposited (userDeposits (run s ops) u)"
proof (intro conjI impI)
  assume ok: "withdraw env s token usbAmount = Inr (s', tokenAmount, actualAmount)"
  then show "s' = s\<lparr>userDeposits := (userDeposits s)(msg_sender env :=
              (userDeposits s (msg_sender env))\<lparr>
                usbMinted := usbMinted (userDeposits s' (msg_sender env)),
                collateralAmounts := (collateralAmounts (userDeposits s (msg_sender env)))
                  (token := collateralAmounts (userDeposits s' (msg_sender env)) token),
                lastUpdateTimestamp := lastUpdateTimestamp (userDeposits s' (msg_sender env))\<rparr>),
            totalValueLocked := totalValueLocked s'\<rparr>"
    by (simp add: withdraw_Inr_iff)
  from withdraw_totalDeposited [OF ok, of u]
  show "totalDeposited (userDeposits s' u) = totalDeposited (userDeposits s u)"
    by simp
next
  show "totalDeposited (userDeposits s u) \<le> totalDeposited (userDeposits (run s ops) u)"
    by (rule run_totalDeposited)
qed

text \<open>C10 on the withdrawal of the example: the total deposited stays at one unit although the
  position is left with one base unit of collateral.\<close>

theorem withdraw_frame_witness:
  "totalDeposited (userDeposits engine_after_withdraw 3) = 10 ^ 18 \<and>
   collateralTokens (userDeposits engine_after_withdraw 3) = [10] \<and>
   totalYieldGenerated engine_after_withdraw = totalYieldGenerated engine_after_deposit \<and>
   run engine_fresh
     [(env_at (2000 * 10 ^ 8) 1000000 1000000, Deposit 10 (10 ^ 18)),
      (env_at (2000 * 10 ^ 8) 1000000 1000000, Withdraw 10 1333333333333333333333)]
     = engine_after_withdraw"
proof -
  let ?env = "env_at (2000 * 10 ^ 8) 1000000 1000000"
  from example_withdraw withdraw_frame
    [of ?env engine_after_deposit 10 1333333333333333333333 engine_after_withdraw
      999999999999999999 999999999999999999 3 "[]"]
  have eq: "engine_after_withdraw = engine_after_deposit\<lparr>userDeposits :=
        (userDeposits engine_after_deposit)(msg_sender ?env :=
          (userDeposits engine_after_deposit (msg_sender ?env))\<lparr>
            usbMinted := usbMinted (userDeposits engine_after_withdraw (msg_sender ?env)),
            collateralAmounts :=
              (collateralAmounts (userDeposits engine_after_deposit (msg_sender ?env)))
              (10 := collateralAmounts (userDeposits engine_after_withdraw (msg_sender ?env)) 10),
            lastUpdateTimestamp :=
              lastUpdateTimestamp (userDeposits engine_after_withdraw (msg_sender ?env))\<rparr>),
        totalValueLocked := totalValueLocked engine_after_withdraw\<rparr>"
    and td: "totalDeposited (userDeposits engine_after_withdraw 3)
        = totalDeposited (userDeposits engine_after_deposit 3)"
    by blast+
  from td have 1: "totalDeposited (userDeposits engine_after_withdraw 3) = 10 ^ 18"
    by (simp add: engine_after_deposit_def)
  have 2: "collateralTokens (userDeposits engine_after_withdraw 3) = [10]"
    by (subst eq) (simp add: engine_after_deposit_def env_at_def)
  have 3: "totalYieldGenerated engine_after_withdraw = totalYieldGenerated engine_after_deposit"
    by (subst eq) simp
  have 4: "run engine_fresh [(?env, Deposit 10 (10 ^ 18)),
      (?env, Withdraw 10 1333333333333333333333)] = engine_after_withdraw"
    using example_deposit example_withdraw by simp
  from 1 2 3 4 show ?thesis by blast
qed




section \<open>The treasury: when its operations succeed\<close>

lemma getAssetValueInUSD_Inr_iff:
  "getAssetValueInUSD env s a amt = Inr v \<longleftrightarrow>
     (if amt = 0 then v = 0
      else \<exists>rd. freshQuote ''Treasury'' env (priceFeeds_T s a) = Inr rd \<and>
        amt * nat (answer rd) \<le> MAX_UINT256 \<and> 10 ^ feed_decimals rd \<le> MAX_UINT256 \<and>
        v = amt * nat (answer rd) div 10 ^ feed_decimals rd)"
  by (auto simp: getAssetValueInUSD_def checked_iffs)

lemma queueWithdrawal_Inr_iff:
  "queueWithdrawal keccak256 env s a amt rcpt rsn = Inr (s', opId) \<longleftrightarrow>
     hasRole s TREASURY_MANAGER_ROLE (msg_sender env) \<and> isSupported_T (reserveAssets s a) \<and>
     amt \<le> balance (reserveAssets s a) \<and> rcpt \<noteq> 0 \<and> amt * 10000 \<le> MAX_UINT256 \<and>
     totalReservesUSD s \<noteq> 0 \<and>
     (maxSingleWithdrawal s < amt * 10000 div totalReservesUSD s \<longrightarrow>
        block_timestamp env + timelockDuration s \<le> MAX_UINT256) \<and>
     opId = keccak256 (encodePacked a amt rcpt (block_timestamp env) rsn) \<and>
     s' = s\<lparr>pendingOperations := (pendingOperations s)(opId :=
            \<lparr>asset = a, amount = amt, recipient = rcpt,
             executeAfter = (if maxSingleWithdrawal s < amt * 10000 div totalReservesUSD s
                then block_timestamp env + timelockDuration s else block_timestamp env),
             opType = WITHDRAWAL, executed = False, reason = rsn\<rparr>)\<rparr>"
  by (auto simp: queueWithdrawal_def checked_iffs Let_def)





lemmas treasury_defs = treasury_usdc_def treasury_env_def no_asset_def no_operation_def feed_at_def

lemma example_queue:
  "queueWithdrawal example_hash (treasury_env 1000000 (50 * 10 ^ 6)) treasury_usdc 11 (900 * 10 ^ 6) 4
     ''Test withdrawal'' = Inr (treasury_queued, timelock_id)"
  by (simp add: queueWithdrawal_Inr_iff treasury_defs treasury_queued_def timelock_id_def
      MAX_UINT256_def)

lemma example_execute_early:
  "executeWithdrawal (treasury_env 1000001 (50 * 10 ^ 6)) treasury_queued timelock_id
     = Inl (Revert ''Treasury: timelock not expired'')"
  by (simp add: executeWithdrawal_def treasury_defs treasury_queued_def)



lemmas execute_defs = executeWithdrawal_def getAssetValueInUSD_def freshQuote_def
  checkReserveRatio_def updateTotalReservesUSD_def updateAssetAllocation_def
  cadd_def csub_def cmul_def cdiv_def cpow_def MAX_UINT256_def Let_def

lemma small_queue:
  "queueWithdrawal example_hash (treasury_env 1000000 (50 * 10 ^ 6)) treasury_usdc 11 (50 * 10 ^ 6) 4
     ''Small withdrawal'' = Inr (treasury_small (1000 * 10 ^ 6) False, small_id)"
  by (simp add: queueWithdrawal_Inr_iff treasury_defs treasury_small_def small_operation_def
      small_id_def MAX_UINT256_def)

lemma small_execute:
  "executeWithdrawal (treasury_env 1000000 (50 * 10 ^ 6)) (treasury_small (1000 * 10 ^ 6) False) small_id
     = Inr (treasury_small (950 * 10 ^ 6) True)"
  by (simp add: execute_defs treasury_defs treasury_small_def small_operation_def)

lemma small_queue_again:
  "queueWithdrawal example_hash (treasury_env 1000000 (50 * 10 ^ 6)) (treasury_small (950 * 10 ^ 6) True)
     11 (50 * 10 ^ 6) 4 ''Small withdrawal'' = Inr (treasury_small (950 * 10 ^ 6) False, small_id)"
  by (simp add: queueWithdrawal_Inr_iff treasury_defs treasury_small_def small_operation_def
      small_id_def MAX_UINT256_def)

lemma small_execute_again:
  "executeWithdrawal (treasury_env 1000000 (50 * 10 ^ 6)) (treasury_small (950 * 10 ^ 6) False) small_id
     = Inr (treasury_small (900 * 10 ^ 6) True)"
  by (simp add: execute_defs treasury_defs treasury_small_def small_operation_def)

lemma weth_queue:
  "queueWithdrawal example_hash (treasury_env 1000000 0) treasury_weth 10 (10 ^ 18) 4
     ''Whole reserve'' = Inr (treasury_weth_queued, weth_id)"
  by (simp add: queueWithdrawal_Inr_iff treasury_defs treasury_weth_def treasury_weth_queued_def
      weth_id_def MAX_UINT256_def)

lemma weth_value:
  "getAssetValueInUSD (treasury_env 1000000 0) treasury_weth 10 (10 ^ 18) = Inr (2000 * 10 ^ 18)"
  by (simp add: getAssetValueInUSD_Inr_iff freshQuote_Inr_iff treasury_defs treasury_weth_def
      MAX_UINT256_def)

section \<open>The treasury: claims\<close>



text \<open>
  Claim C4. The claim reads: when the amount's USD share of the total reserves exceeds the
  single-withdrawal cap, \<^verbatim>\<open>executeAfter\<close> is now plus the timelock. The code divides the
  raw token amount, not its USD value, by \<^verbatim>\<open>totalReservesUSD\<close> (line 217), although the
  cap is documented as basis points of total reserves and \<^verbatim>\<open>executeWithdrawal\<close> values the
  same amount through \<^verbatim>\<open>_getAssetValueInUSD\<close>. A treasury holds one unit of an asset
  priced at 2000 USD, so \<^verbatim>\<open>totalReservesUSD\<close> is \<open>2000 * 10 ^ 18\<close>; the manager queues the
  withdrawal of the whole unit. Its USD value is all of the reserves, 10000 basis points
  against a cap of 1000, yet the stored \<^verbatim>\<open>executeAfter\<close> is the time of the call: the
  code computed \<open>10 ^ 18 * 10000 div (2000 * 10 ^ 18) = 5\<close>.
\<close>

theorem queueWithdrawal_compares_raw_amount:
  "queueWithdrawal example_hash (treasury_env 1000000 0) treasury_weth 10 (10 ^ 18) 4
     ''Whole reserve'' = Inr (treasury_weth_queued, weth_id) \<and>
   executeAfter (pendingOperations treasury_weth_queued weth_id) = 1000000 \<and>
   getAssetValueInUSD (treasury_env 1000000 0) treasury_weth 10 (10 ^ 18) = Inr (2000 * 10 ^ 18) \<and>
   2000 * 10 ^ 18 * 10000 div totalReservesUSD treasury_weth = 10000 \<and>
   maxSingleWithdrawal treasury_weth = 1000 \<and>
   timelockDuration treasury_weth = 172800"
  using weth_queue weth_value
  by (simp add: treasury_weth_queued_def treasury_weth_def treasury_usdc_def)

text \<open>
  Claim C8. While \<^verbatim>\<open>totalReservesUSD\<close> is zero every \<^verbatim>\<open>queueWithdrawal\<close> fails; a call
  that meets every stated precondition (caller is the manager, asset supported, amount
  within the balance, recipient not zero) aborts with the division-by-zero panic of line
  217.
\<close>

theorem queueWithdrawal_zero_reserves:
  "(totalReservesUSD s = 0 \<longrightarrow> failed (queueWithdrawal keccak256 env s a amt rcpt rsn)) \<and>
   (totalReservesUSD s = 0 \<and> hasRole s TREASURY_MANAGER_ROLE (msg_sender env) \<and>
    isSupported_T (reserveAssets s a) \<and> amt \<le> balance (reserveAssets s a) \<and> rcpt \<noteq> 0 \<and>
    amt * 10000 \<le> MAX_UINT256 \<longrightarrow>
      queueWithdrawal keccak256 env s a amt rcpt rsn = Inl (Panic PANIC_DIV_ZERO))"
proof (intro conjI impI)
  assume "totalReservesUSD s = 0"
  then have "queueWithdrawal keccak256 env s a amt rcpt rsn \<noteq> Inr r" for r
    by (cases r) (simp add: queueWithdrawal_Inr_iff)
  then show "failed (queueWithdrawal keccak256 env s a amt rcpt rsn)"
    by (simp add: failed_iff)
next
  assume "totalReservesUSD s = 0 \<and> hasRole s TREASURY_MANAGER_ROLE (msg_sender env) \<and>
    isSupported_T (reserveAssets s a) \<and> amt \<le> balance (reserveAssets s a) \<and> rcpt \<noteq> 0 \<and>
    amt * 10000 \<le> MAX_UINT256"
  then show "queueWithdrawal keccak256 env s a amt rcpt rsn = Inl (Panic PANIC_DIV_ZERO)"
    by (simp add: queueWithdrawal_def cmul_def cdiv_def)
qed

text \<open>C8 on the treasury before any deposit: queuing amount 0 of the supported asset panics.\<close>

theorem queueWithdrawal_zero_reserves_witness:
  "totalReservesUSD treasury_empty = 0 \<and>
   isSupported_T (reserveAssets treasury_empty 11) \<and>
   queueWithdrawal example_hash (treasury_env 1000000 0) treasury_empty 11 0 4 ''Nothing''
     = Inl (Panic PANIC_DIV_ZERO) \<and>
   failed (queueWithdrawal example_hash (treasury_env 1000000 0) treasury_empty 11 0 4 ''Nothing'')"
proof -
  have pre: "totalReservesUSD treasury_empty = 0 \<and>
    hasRole treasury_empty TREASURY_MANAGER_ROLE (msg_sender (treasury_env 1000000 0)) \<and>
    isSupported_T (reserveAssets treasury_empty 11) \<and>
    0 \<le> balance (reserveAssets treasury_empty 11) \<and> (4::nat) \<noteq> 0 \<and>
    0 * 10000 \<le> MAX_UINT256"
    by (simp add: treasury_empty_def treasury_defs)
  note T = queueWithdrawal_zero_reserves
    [of treasury_empty example_hash "treasury_env 1000000 0" 11 0 4 "''Nothing''"]
  from T [THEN conjunct2, THEN mp, OF pre] T [THEN conjunct1] pre show ?thesis
    by simp
qed

text \<open>
  Claim C9. First conjunct: the identifier is the hash of
  \<open>(asset, amount, recipient, timestamp, reason)\<close> and of nothing else, so two calls with
  the same arguments at the same timestamp, in whatever states, return the same
  identifier; after the second call the operation stored under it is the fresh one, with
  \<^verbatim>\<open>executed\<close> false, whatever was stored there before, and no other entry changed.
  Remaining conjuncts, all in one block: an operation is queued and executed, so its flag
  is set; the same call is queued again and returns the same identifier with the flag
  cleared; \<^verbatim>\<open>executeWithdrawal\<close> of that identifier succeeds a second time, and the
  balance has gone down twice.
\<close>

theorem queueWithdrawal_identifier_reuse:
  "(queueWithdrawal keccak256 env s a amt rcpt rsn = Inr (s1, id1) \<and>
    queueWithdrawal keccak256 env2 s2 a amt rcpt rsn = Inr (s3, id2) \<and>
    block_timestamp env2 = block_timestamp env \<longrightarrow>
      id1 = keccak256 (encodePacked a amt rcpt (block_timestamp env) rsn) \<and> id2 = id1 \<and>
      \<not> executed (pendingOperations s3 id1) \<and>
      asset (pendingOperations s3 id1) = a \<and> amount (pendingOperations s3 id1) = amt \<and>
      recipient (pendingOperations s3 id1) = rcpt \<and> reason (pendingOperations s3 id1) = rsn \<and>
      (\<forall>i. i \<noteq> id1 \<longrightarrow> pendingOperations s3 i = pendingOperations s2 i)) \<and>
   queueWithdrawal example_hash (treasury_env 1000000 (50 * 10 ^ 6)) treasury_usdc 11 (50 * 10 ^ 6) 4
     ''Small withdrawal'' = Inr (treasury_small (1000 * 10 ^ 6) False, small_id) \<and>
   executeWithdrawal (treasury_env 1000000 (50 * 10 ^ 6)) (treasury_small (1000 * 10 ^ 6) False) small_id
     = Inr (treasury_small (950 * 10 ^ 6) True) \<and>
   executed (pendingOperations (treasury_small (950 * 10 ^ 6) True) small_id) \<and>
   queueWithdrawal example_hash (treasury_env 1000000 (50 * 10 ^ 6)) (treasury_small (950 * 10 ^ 6) True)
     11 (50 * 10 ^ 6) 4 ''Small withdrawal'' = Inr (treasury_small (950 * 10 ^ 6) False, small_id) \<and>
   \<not> executed (pendingOperations (treasury_small (950 * 10 ^ 6) False) small_id) \<and>
   executeWithdrawal (treasury_env 1000000 (50 * 10 ^ 6)) (treasury_small (950 * 10 ^ 6) False) small_id
     = Inr (treasury_small (900 * 10 ^ 6) True) \<and>
   balance (reserveAssets (treasury_small (900 * 10 ^ 6) True) 11) = 900 * 10 ^ 6"
proof (intro conjI impI allI)
  assume h: "queueWithdrawal keccak256 env s a amt rcpt rsn = Inr (s1, id1) \<and>
    queueWithdrawal keccak256 env2 s2 a amt rcpt rsn = Inr (s3, id2) \<and>
    block_timestamp env2 = block_timestamp env"
  then show "id1 = keccak256 (encodePacked a amt rcpt (block_timestamp env) rsn)"
    by (simp add: queueWithdrawal_Inr_iff)
  from h show same: "id2 = id1"
    by (simp add: queueWithdrawal_Inr_iff)
  from h same show "\<not> executed (pendingOperations s3 id1)"
    "asset (pendingOperations s3 id1) = a" "amount (pendingOperations s3 id1) = amt"
    "recipient (pendingOperations s3 id1) = rcpt" "reason (pendingOperations s3 id1) = rsn"
    by (simp_all add: queueWithdrawal_Inr_iff)
  fix i
  assume "i \<noteq> id1"
  with h same show "pendingOperations s3 i = pendingOperations s2 i"
    by (simp add: queueWithdrawal_Inr_iff)
next
  show "queueWithdrawal example_hash (treasury_env 1000000 (50 * 10 ^ 6)) treasury_usdc 11 (50 * 10 ^ 6) 4
     ''Small withdrawal'' = Inr (treasury_small (1000 * 10 ^ 6) False, small_id)"
    by (rule small_queue)
  show "executeWithdrawal (treasury_env 1000000 (50 * 10 ^ 6)) (treasury_small (1000 * 10 ^ 6) False) small_id
     = Inr (treasury_small (950 * 10 ^ 6) True)"
    by (rule small_execute)
  show "executed (pendingOperations (treasury_small (950 * 10 ^ 6) True) small_id)"
    by (simp add: treasury_small_def small_operation_def)
  show "queueWithdrawal example_hash (treasury_env 1000000 (50 * 10 ^ 6)) (treasury_small (950 * 10 ^ 6) True)
     11 (50 * 10 ^ 6) 4 ''Small withdrawal'' = Inr (treasury_small (950 * 10 ^ 6) False, small_id)"
    by (rule small_queue_again)
  show "\<not> executed (pendingOperations (treasury_small (950 * 10 ^ 6) False) small_id)"
    by (simp add: treasury_small_def small_operation_def)
  show "executeWithdrawal (treasury_env 1000000 (50 * 10 ^ 6)) (treasury_small (950 * 10 ^ 6) False) small_id
     = Inr (treasury_small (900 * 10 ^ 6) True)"
    by (rule small_execute_again)
  show "balance (reserveAssets (treasury_small (900 * 10 ^ 6) True) 11) = 900 * 10 ^ 6"
    by (simp add: treasury_small_def)
qed

text \<open>The hypotheses of the first conjunct of C9 hold for the two queuing calls of the example.\<close>

theorem queueWithdrawal_identifier_reuse_witness:
  "small_id = example_hash (encodePacked 11 (50 * 10 ^ 6) 4 1000000 ''Small withdrawal'') \<and>
   \<not> executed (pendingOperations (treasury_small (950 * 10 ^ 6) False) small_id) \<and>
   amount (pendingOperations (treasury_small (950 * 10 ^ 6) False) small_id) = 50 * 10 ^ 6"
proof -
  let ?env = "treasury_env 1000000 (50 * 10 ^ 6)"
  note T = queueWithdrawal_identifier_reuse
    [of example_hash ?env treasury_usdc 11 "50 * 10 ^ 6" 4 "''Small withdrawal''"
      "treasury_small (1000 * 10 ^ 6) False" small_id ?env "treasury_small (950 * 10 ^ 6) True"
      "treasury_small (950 * 10 ^ 6) False" small_id]
  have now: "block_timestamp ?env = 1000000"
    by (simp add: treasury_env_def)
  from T [THEN conjunct1, THEN mp, OF conjI [OF small_queue conjI [OF small_queue_again refl]]] now
  show ?thesis
    by simp
qed

end
